theory Spec2Isabelle
  imports Complex_Main
begin

section \<open>The quadratic line search of MRtrix (math/quadratic\_line\_search.h)\<close>

text \<open>
  The class \<^verbatim>\<open>QuadraticLineSearch<ValueType>\<close> is a template over its number type.
  The embedding follows the template: the arithmetic of \<^verbatim>\<open>ValueType\<close> is a parameter
  (a record of the operations the two search routines apply to values), the optimiser
  object is a record whose \<^verbatim>\<open>status\<close> field is the one the \<^verbatim>\<open>const\<close> member
  functions mutate, and the cost functor, which the routines take by non-const
  reference, is a function that threads its own state.
\<close>

subsection \<open>The number type\<close>

text \<open>
  Every operation the source applies to a \<^verbatim>\<open>ValueType\<close>:
  \<^verbatim>\<open>+ - * /\<close>, \<^verbatim>\<open><\<close> (and \<^verbatim>\<open>a > b\<close>, read as \<^verbatim>\<open>b < a\<close>), \<^verbatim>\<open>==\<close>,
  \<^verbatim>\<open>std::abs\<close>, \<^verbatim>\<open>std::isfinite\<close>, the macro \<^verbatim>\<open>NAN\<close> and the literals
  \<^verbatim>\<open>0.0\<close>, \<^verbatim>\<open>0.5\<close>, \<^verbatim>\<open>2.0\<close>, \<^verbatim>\<open>0.001\<close> converted to the number type.
\<close>

record 'a arith =
  a_add :: "'a \<Rightarrow> 'a \<Rightarrow> 'a"
  a_sub :: "'a \<Rightarrow> 'a \<Rightarrow> 'a"
  a_mul :: "'a \<Rightarrow> 'a \<Rightarrow> 'a"
  a_div :: "'a \<Rightarrow> 'a \<Rightarrow> 'a"
  a_lt :: "'a \<Rightarrow> 'a \<Rightarrow> bool"
  a_eq :: "'a \<Rightarrow> 'a \<Rightarrow> bool"
  a_abs :: "'a \<Rightarrow> 'a"
  a_isfinite :: "'a \<Rightarrow> bool"
  a_nan :: "'a"
  lit_0 :: "'a"
  lit_half :: "'a"
  lit_2 :: "'a"
  lit_milli :: "'a"

text \<open>\<^verbatim>\<open>std::min (a, b)\<close> is \<^verbatim>\<open>(b < a) ? b : a\<close>.\<close>

definition std_min :: "'a arith \<Rightarrow> 'a \<Rightarrow> 'a \<Rightarrow> 'a" where
  "std_min A a b = (if a_lt A b a then b else a)"

subsection \<open>The optimiser object\<close>

datatype return_t = SUCCESS | EXECUTING | OUTSIDE_BOUNDS | NONCONVEX | NONCONVERGING

text \<open>
  \<^verbatim>\<open>max_iters\<close> is a \<^verbatim>\<open>size_t\<close>; the loop counter never exceeds it while it is read,
  so both are natural numbers here.
\<close>

record 'a QuadraticLineSearch =
  init_lower :: 'a
  init_mid :: 'a
  init_upper :: 'a
  value_tolerance :: 'a
  function_tolerance :: 'a
  exit_outside_bounds :: bool
  max_iters :: nat
  message :: string
  status :: return_t

definition new_QuadraticLineSearch :: "'a arith \<Rightarrow> 'a \<Rightarrow> 'a \<Rightarrow> 'a QuadraticLineSearch" where
  "new_QuadraticLineSearch A lower_bound upper_bound =
     \<lparr> init_lower = lower_bound,
       init_mid = a_mul A (lit_half A) (a_add A lower_bound upper_bound),
       init_upper = upper_bound,
       value_tolerance = a_mul A (lit_milli A) (a_sub A upper_bound lower_bound),
       function_tolerance = lit_0 A,
       exit_outside_bounds = True,
       max_iters = 50,
       message = [],
       status = SUCCESS \<rparr>"

definition set_lower_bound :: "'a \<Rightarrow> 'a QuadraticLineSearch \<Rightarrow> 'a QuadraticLineSearch" where
  "set_lower_bound i self = self\<lparr>init_lower := i\<rparr>"

definition set_init_estimate :: "'a \<Rightarrow> 'a QuadraticLineSearch \<Rightarrow> 'a QuadraticLineSearch" where
  "set_init_estimate i self = self\<lparr>init_mid := i\<rparr>"

definition set_upper_bound :: "'a \<Rightarrow> 'a QuadraticLineSearch \<Rightarrow> 'a QuadraticLineSearch" where
  "set_upper_bound i self = self\<lparr>init_upper := i\<rparr>"

definition set_value_tolerance :: "'a \<Rightarrow> 'a QuadraticLineSearch \<Rightarrow> 'a QuadraticLineSearch" where
  "set_value_tolerance i self = self\<lparr>value_tolerance := i\<rparr>"

definition set_function_tolerance :: "'a \<Rightarrow> 'a QuadraticLineSearch \<Rightarrow> 'a QuadraticLineSearch" where
  "set_function_tolerance i self = self\<lparr>function_tolerance := i\<rparr>"

definition set_exit_if_outside_bounds :: "bool \<Rightarrow> 'a QuadraticLineSearch \<Rightarrow> 'a QuadraticLineSearch" where
  "set_exit_if_outside_bounds i self = self\<lparr>exit_outside_bounds := i\<rparr>"

definition set_max_iterations :: "nat \<Rightarrow> 'a QuadraticLineSearch \<Rightarrow> 'a QuadraticLineSearch" where
  "set_max_iterations i self = self\<lparr>max_iters := i\<rparr>"

definition set_message :: "string \<Rightarrow> 'a QuadraticLineSearch \<Rightarrow> 'a QuadraticLineSearch" where
  "set_message i self = self\<lparr>message := i\<rparr>"

definition get_status :: "'a QuadraticLineSearch \<Rightarrow> return_t" where
  "get_status self = status self"

subsection \<open>The search\<close>

text \<open>
  The six locals \<^verbatim>\<open>l, fl, m, fm, u, fu\<close> of the loop. The functor is called as
  \<^verbatim>\<open>functor (x)\<close> on a non-const reference: it returns the cost and its new state.
  The progress bar of \<^verbatim>\<open>operator()\<close> and the text \<^verbatim>\<open>verbose\<close> writes to
  \<^verbatim>\<open>std::cerr\<close> influence neither the returned value nor the object and are left out.
\<close>

record 'a bracket =
  bl :: 'a
  bfl :: 'a
  bm :: 'a
  bfm :: 'a
  bu :: 'a
  bfu :: 'a

type_synonym ('a, 's) cost_functor = "'a \<Rightarrow> 's \<Rightarrow> 'a \<times> 's"

text \<open>What one pass through the loop body does: it returns from the call, or it goes on.\<close>

datatype ('a, 's) flow =
  Return 'a "'a QuadraticLineSearch" 's
| Continue "'a bracket" 's

text \<open>The test \<^verbatim>\<open>fm > (fl + ((fu-fl)*(m-l)/(u-l)))\<close>.\<close>

definition above_chord :: "'a arith \<Rightarrow> 'a bracket \<Rightarrow> bool" where
  "above_chord A b =
     a_lt A (a_add A (bfl b)
               (a_div A (a_mul A (a_sub A (bfu b) (bfl b)) (a_sub A (bm b) (bl b)))
                        (a_sub A (bu b) (bl b))))
            (bfm b)"

text \<open>\<^verbatim>\<open>std::min(m-l, u-m) < value_tolerance\<close>.\<close>

definition narrow :: "'a arith \<Rightarrow> 'a QuadraticLineSearch \<Rightarrow> 'a bracket \<Rightarrow> bool" where
  "narrow A self b =
     a_lt A (std_min A (a_sub A (bm b) (bl b)) (a_sub A (bu b) (bm b))) (value_tolerance self)"

text \<open>\<^verbatim>\<open>std::abs((fu-fl)/(0.5*(fu+fl))) < function_tolerance\<close>.\<close>

definition flat :: "'a arith \<Rightarrow> 'a QuadraticLineSearch \<Rightarrow> 'a bracket \<Rightarrow> bool" where
  "flat A self b =
     a_lt A (a_abs A (a_div A (a_sub A (bfu b) (bfl b))
                              (a_mul A (lit_half A) (a_add A (bfu b) (bfl b)))))
            (function_tolerance self)"

text \<open>The slopes \<^verbatim>\<open>sl\<close>, \<^verbatim>\<open>su\<close> and the new point \<^verbatim>\<open>n\<close>.\<close>

definition candidate :: "'a arith \<Rightarrow> 'a bracket \<Rightarrow> 'a" where
  "candidate A b =
     (let sl = a_div A (a_sub A (bfm b) (bfl b)) (a_sub A (bm b) (bl b));
          su = a_div A (a_sub A (bfu b) (bfm b)) (a_sub A (bu b) (bm b))
      in a_sub A (a_mul A (lit_half A) (a_add A (bl b) (bm b)))
                 (a_div A (a_mul A sl (a_sub A (bu b) (bl b)))
                          (a_mul A (lit_2 A) (a_sub A su sl))))"

text \<open>
  The chain \<^verbatim>\<open>if (n < l) ... else if (n < m) ... else if (n == m) ... else if (n < u) ... else ...\<close>:
  on the left a \<^verbatim>\<open>return\<close> (the value and the object as it is left), on the right the
  updated locals.
\<close>

definition update :: "'a arith \<Rightarrow> 'a QuadraticLineSearch \<Rightarrow> 'a bracket \<Rightarrow> 'a \<Rightarrow> 'a
    \<Rightarrow> ('a \<times> 'a QuadraticLineSearch) + 'a bracket" where
  "update A self b n fn =
     (if a_lt A n (bl b) then
        (if exit_outside_bounds self then Inl (a_nan A, self\<lparr>status := OUTSIDE_BOUNDS\<rparr>)
         else Inr \<lparr>bl = n, bfl = fn, bm = bl b, bfm = bfl b, bu = bm b, bfu = bfm b\<rparr>)
      else if a_lt A n (bm b) then
        (if a_lt A (bfm b) fn then Inr (b\<lparr>bl := n, bfl := fn\<rparr>)
         else Inr \<lparr>bl = bl b, bfl = bfl b, bm = n, bfm = fn, bu = bm b, bfu = bfm b\<rparr>)
      else if a_eq A n (bm b) then Inl (n, self)
      else if a_lt A n (bu b) then
        (if a_lt A (bfm b) fn then Inr (b\<lparr>bu := n, bfu := fn\<rparr>)
         else Inr \<lparr>bl = bm b, bfl = bfm b, bm = n, bfm = fn, bu = bu b, bfu = bfu b\<rparr>)
      else
        (if exit_outside_bounds self then Inl (a_nan A, self\<lparr>status := OUTSIDE_BOUNDS\<rparr>)
         else Inr \<lparr>bl = bm b, bfl = bfm b, bm = bu b, bfm = bfu b, bu = n, bfu = fn\<rparr>))"

text \<open>\<^verbatim>\<open>(u-l) < value_tolerance\<close>, the test that ends the loop body.\<close>

definition converged :: "'a arith \<Rightarrow> 'a QuadraticLineSearch \<Rightarrow> 'a bracket \<Rightarrow> bool" where
  "converged A self b = a_lt A (a_sub A (bu b) (bl b)) (value_tolerance self)"

text \<open>The loop body of \<^verbatim>\<open>operator()\<close>.\<close>

definition iteration :: "'a arith \<Rightarrow> 'a QuadraticLineSearch \<Rightarrow> ('a, 's) cost_functor
    \<Rightarrow> 'a bracket \<Rightarrow> 's \<Rightarrow> ('a, 's) flow" where
  "iteration A self functor b s =
     (if above_chord A b then
        (if narrow A self b \<or> flat A self b then Return (bm b) (self\<lparr>status := SUCCESS\<rparr>) s
         else Return (a_nan A) (self\<lparr>status := NONCONVEX\<rparr>) s)
      else
        (let n = candidate A b;
             (fn, s') = functor n s
         in if \<not> a_isfinite A fn then Return (bm b) self s'
            else
              (case update A self b n fn of
                 Inl (v, self') \<Rightarrow> Return v self' s'
               | Inr b' \<Rightarrow>
                   if converged A self b' then Return (bm b') (self\<lparr>status := SUCCESS\<rparr>) s'
                   else Continue b' s')))"

text \<open>\<^verbatim>\<open>while (iters++ < max_iters) { ... }\<close> and the two statements after it.\<close>

function loop :: "'a arith \<Rightarrow> 'a QuadraticLineSearch \<Rightarrow> ('a, 's) cost_functor
    \<Rightarrow> nat \<Rightarrow> 'a bracket \<Rightarrow> 's \<Rightarrow> 'a \<times> 'a QuadraticLineSearch \<times> 's" where
  "loop A self functor iters b s =
     (if iters < max_iters self then
        (case iteration A self functor b s of
           Return v self' s' \<Rightarrow> (v, self', s')
         | Continue b' s' \<Rightarrow> loop A self functor (Suc iters) b' s')
      else (a_nan A, self\<lparr>status := NONCONVERGING\<rparr>, s))"
  by pat_completeness auto
termination
  by (relation "measure (\<lambda>(A, self, functor, iters, b, s). max_iters self - iters)") auto

declare loop.simps [simp del]

text \<open>
  The statements before the loop: the status is set, then the functor is called on the
  lower, the middle and the upper point, in this order.
\<close>

definition initial :: "'a QuadraticLineSearch \<Rightarrow> ('a, 's) cost_functor \<Rightarrow> 's \<Rightarrow> 'a bracket \<times> 's" where
  "initial self functor s =
     (let l = init_lower self; m = init_mid self; u = init_upper self;
          (fl, s1) = functor l s;
          (fm, s2) = functor m s1;
          (fu, s3) = functor u s2
      in (\<lparr>bl = l, bfl = fl, bm = m, bfm = fm, bu = u, bfu = fu\<rparr>, s3))"

text \<open>\<^verbatim>\<open>operator()\<close>: the returned value, the object after the call, the functor after the call.\<close>

definition operator_call :: "'a arith \<Rightarrow> 'a QuadraticLineSearch \<Rightarrow> ('a, 's) cost_functor \<Rightarrow> 's
    \<Rightarrow> 'a \<times> 'a QuadraticLineSearch \<times> 's" where
  "operator_call A self functor s =
     (let self1 = self\<lparr>status := EXECUTING\<rparr>;
          (b, s3) = initial self1 functor s
      in loop A self1 functor 0 b s3)"

text \<open>
  The loop body of \<^verbatim>\<open>verbose\<close>: the first test has one disjunct, and the cost of the
  new point is not tested for finiteness.
\<close>

definition verbose_iteration :: "'a arith \<Rightarrow> 'a QuadraticLineSearch \<Rightarrow> ('a, 's) cost_functor
    \<Rightarrow> 'a bracket \<Rightarrow> 's \<Rightarrow> ('a, 's) flow" where
  "verbose_iteration A self functor b s =
     (if above_chord A b then
        (if narrow A self b then Return (bm b) (self\<lparr>status := SUCCESS\<rparr>) s
         else Return (a_nan A) (self\<lparr>status := NONCONVEX\<rparr>) s)
      else
        (let n = candidate A b;
             (fn, s') = functor n s
         in case update A self b n fn of
              Inl (v, self') \<Rightarrow> Return v self' s'
            | Inr b' \<Rightarrow>
                if converged A self b' then Return (bm b') (self\<lparr>status := SUCCESS\<rparr>) s'
                else Continue b' s'))"

function verbose_loop :: "'a arith \<Rightarrow> 'a QuadraticLineSearch \<Rightarrow> ('a, 's) cost_functor
    \<Rightarrow> nat \<Rightarrow> 'a bracket \<Rightarrow> 's \<Rightarrow> 'a \<times> 'a QuadraticLineSearch \<times> 's" where
  "verbose_loop A self functor iters b s =
     (if iters < max_iters self then
        (case verbose_iteration A self functor b s of
           Return v self' s' \<Rightarrow> (v, self', s')
         | Continue b' s' \<Rightarrow> verbose_loop A self functor (Suc iters) b' s')
      else (a_nan A, self\<lparr>status := NONCONVERGING\<rparr>, s))"
  by pat_completeness auto
termination
  by (relation "measure (\<lambda>(A, self, functor, iters, b, s). max_iters self - iters)") auto

declare verbose_loop.simps [simp del]

definition verbose :: "'a arith \<Rightarrow> 'a QuadraticLineSearch \<Rightarrow> ('a, 's) cost_functor \<Rightarrow> 's
    \<Rightarrow> 'a \<times> 'a QuadraticLineSearch \<times> 's" where
  "verbose A self functor s =
     (let self1 = self\<lparr>status := EXECUTING\<rparr>;
          (b, s3) = initial self1 functor s
      in verbose_loop A self1 functor 0 b s3)"

subsection \<open>A number type to run the search on\<close>

text \<open>
  Rational numbers with the two infinities and the not-a-number value. The operations
  treat the three special values as IEEE 754 arithmetic does (an invalid operation gives
  NaN, every comparison with NaN is false) and are exact on numbers: there is no
  rounding and no overflow. There is one zero: a non-zero number divided by zero gets the
  sign of the numerator. On a run all of whose intermediate values are binary fractions
  of a few bits, as in the scenarios below, \<^verbatim>\<open>float\<close> and \<^verbatim>\<open>double\<close> compute the same
  values.
\<close>

datatype xval = Fin rat | PInf | NInf | NaN

fun xneg :: "xval \<Rightarrow> xval" where
  "xneg (Fin a) = Fin (- a)"
| "xneg PInf = NInf"
| "xneg NInf = PInf"
| "xneg NaN = NaN"

fun xadd :: "xval \<Rightarrow> xval \<Rightarrow> xval" where
  "xadd NaN y = NaN"
| "xadd x NaN = NaN"
| "xadd (Fin a) (Fin b) = Fin (a + b)"
| "xadd PInf NInf = NaN"
| "xadd NInf PInf = NaN"
| "xadd PInf y = PInf"
| "xadd x PInf = PInf"
| "xadd NInf y = NInf"
| "xadd x NInf = NInf"

definition xsub :: "xval \<Rightarrow> xval \<Rightarrow> xval" where
  "xsub x y = xadd x (xneg y)"

text \<open>The infinity with the sign of a non-zero number, NaN for zero.\<close>

definition inf_of :: "rat \<Rightarrow> xval" where
  "inf_of a = (if a = 0 then NaN else if 0 < a then PInf else NInf)"

fun xmul :: "xval \<Rightarrow> xval \<Rightarrow> xval" where
  "xmul NaN y = NaN"
| "xmul x NaN = NaN"
| "xmul (Fin a) (Fin b) = Fin (a * b)"
| "xmul (Fin a) PInf = inf_of a"
| "xmul (Fin a) NInf = inf_of (- a)"
| "xmul PInf (Fin b) = inf_of b"
| "xmul NInf (Fin b) = inf_of (- b)"
| "xmul PInf PInf = PInf"
| "xmul PInf NInf = NInf"
| "xmul NInf PInf = NInf"
| "xmul NInf NInf = PInf"

fun xdiv :: "xval \<Rightarrow> xval \<Rightarrow> xval" where
  "xdiv NaN y = NaN"
| "xdiv x NaN = NaN"
| "xdiv (Fin a) (Fin b) = (if b = 0 then inf_of a else Fin (a / b))"
| "xdiv (Fin a) y = Fin 0"
| "xdiv PInf (Fin b) = (if 0 \<le> b then PInf else NInf)"
| "xdiv NInf (Fin b) = (if 0 \<le> b then NInf else PInf)"
| "xdiv x y = NaN"

fun xlt :: "xval \<Rightarrow> xval \<Rightarrow> bool" where
  "xlt (Fin a) (Fin b) = (a < b)"
| "xlt (Fin a) PInf = True"
| "xlt NInf (Fin b) = True"
| "xlt NInf PInf = True"
| "xlt x y = False"

fun xeq :: "xval \<Rightarrow> xval \<Rightarrow> bool" where
  "xeq (Fin a) (Fin b) = (a = b)"
| "xeq PInf PInf = True"
| "xeq NInf NInf = True"
| "xeq x y = False"

fun xabs :: "xval \<Rightarrow> xval" where
  "xabs (Fin a) = Fin \<bar>a\<bar>"
| "xabs PInf = PInf"
| "xabs NInf = PInf"
| "xabs NaN = NaN"

fun xisfinite :: "xval \<Rightarrow> bool" where
  "xisfinite (Fin a) = True"
| "xisfinite x = False"

definition exact :: "xval arith" where
  "exact = \<lparr> a_add = xadd, a_sub = xsub, a_mul = xmul, a_div = xdiv, a_lt = xlt, a_eq = xeq,
             a_abs = xabs, a_isfinite = xisfinite, a_nan = NaN,
             lit_0 = Fin 0, lit_half = Fin (1 / 2), lit_2 = Fin 2, lit_milli = Fin (1 / 1000) \<rparr>"

subsection \<open>Cost functors to run the search on\<close>

text \<open>
  A functor without state of its own, and one that keeps the list of the points it has
  been called on.
\<close>

definition stateless :: "('a \<Rightarrow> 'a) \<Rightarrow> ('a, unit) cost_functor" where
  "stateless g x s = (g x, s)"

definition logging :: "('a \<Rightarrow> 'a) \<Rightarrow> ('a, 'a list) cost_functor" where
  "logging g x pts = (g x, pts @ [x])"

text \<open>The cost functions \<open>(x - c)\<^sup>2\<close> and \<open>- (x - c)\<^sup>2\<close>, and a constant one.\<close>

definition parabola :: "rat \<Rightarrow> xval \<Rightarrow> xval" where
  "parabola c x = xmul (xsub x (Fin c)) (xsub x (Fin c))"

definition hill :: "rat \<Rightarrow> xval \<Rightarrow> xval" where
  "hill c x = xneg (parabola c x)"

definition level :: "rat \<Rightarrow> xval \<Rightarrow> xval" where
  "level c x = Fin c"

text \<open>
  The optimiser of the two scenarios: constructed on the bounds 0 and 4, its initial
  estimate set to 1, everything else as the constructor leaves it.
\<close>

definition scenario :: "xval QuadraticLineSearch" where
  "scenario = set_init_estimate (Fin 1) (new_QuadraticLineSearch exact (Fin 0) (Fin 4))"

subsection \<open>Where a call stands\<close>

text \<open>
  \<open>at_iteration A self f s iters b t\<close>: in the call of \<^verbatim>\<open>operator()\<close> on the object
  \<open>self\<close> with the functor \<open>f\<close> in state \<open>s\<close>, control reaches the test of the
  \<^verbatim>\<open>while\<close> with the counter at \<open>iters\<close>, the locals \<open>b\<close> and the functor in state
  \<open>t\<close>.
\<close>

inductive at_iteration :: "'a arith \<Rightarrow> 'a QuadraticLineSearch \<Rightarrow> ('a, 's) cost_functor \<Rightarrow> 's
    \<Rightarrow> nat \<Rightarrow> 'a bracket \<Rightarrow> 's \<Rightarrow> bool"
  for A self f s where
  entry: "initial (self\<lparr>status := EXECUTING\<rparr>) f s = (b, t)
    \<Longrightarrow> at_iteration A self f s 0 b t"
| pass: "at_iteration A self f s iters b t \<Longrightarrow> iters < max_iters self
    \<Longrightarrow> iteration A (self\<lparr>status := EXECUTING\<rparr>) f b t = Continue b' t'
    \<Longrightarrow> at_iteration A self f s (Suc iters) b' t'"

code_pred at_iteration .

subsection \<open>Notions the properties are stated with\<close>

text \<open>What a pass decides, without the state of the functor.\<close>

fun outcome :: "('a, 's) flow \<Rightarrow> ('a \<times> 'a QuadraticLineSearch) + 'a bracket" where
  "outcome (Return v self' s') = Inl (v, self')"
| "outcome (Continue b' s') = Inr b'"

text \<open>A deterministic cost functor: the cost it returns depends on the point only.\<close>

definition deterministic :: "('a, 's) cost_functor \<Rightarrow> bool" where
  "deterministic f \<longleftrightarrow> (\<forall>x s t. fst (f x s) = fst (f x t))"

text \<open>A functor together with the number of times it has been called.\<close>

definition counted :: "('a, 's) cost_functor \<Rightarrow> ('a, 's \<times> nat) cost_functor" where
  "counted f x = (\<lambda>(s, k). let (y, s') = f x s in (y, (s', Suc k)))"

text \<open>
  The order of the bracket as the specification has it, \<open>l < m < u\<close>, and the weaker
  order \<open>l \<le> m \<le> u\<close>, \<open>l < u\<close>, with \<open>x \<le> y\<close> read as \<open>\<not> y < x\<close>.
\<close>

definition ordered_bracket :: "'a arith \<Rightarrow> 'a bracket \<Rightarrow> bool" where
  "ordered_bracket A b \<longleftrightarrow> a_lt A (bl b) (bm b) \<and> a_lt A (bm b) (bu b)"

definition weakly_ordered :: "'a arith \<Rightarrow> 'a bracket \<Rightarrow> bool" where
  "weakly_ordered A b \<longleftrightarrow>
     \<not> a_lt A (bm b) (bl b) \<and> \<not> a_lt A (bu b) (bm b) \<and> a_lt A (bl b) (bu b)"

text \<open>
  The comparisons of a number type order the values of \<open>S\<close>: \<^verbatim>\<open><\<close> is irreflexive and
  transitive, values that are not below each other stay so (\<open>x < z\<close> gives \<open>x < y\<close> or
  \<open>y < z\<close>), and two values are \<^verbatim>\<open>==\<close> or one is \<^verbatim>\<open><\<close> the other. The floating point
  numbers other than NaN are ordered in this sense.
\<close>

definition linear_on :: "'a arith \<Rightarrow> 'a set \<Rightarrow> bool" where
  "linear_on A S \<longleftrightarrow>
     (\<forall>x\<in>S. \<forall>y\<in>S. \<forall>z\<in>S.
        \<not> a_lt A x x
        \<and> (a_lt A x y \<and> a_lt A y z \<longrightarrow> a_lt A x z)
        \<and> (a_lt A x z \<longrightarrow> a_lt A x y \<or> a_lt A y z)
        \<and> (a_lt A x y \<or> a_eq A x y \<or> a_lt A y x))"

text \<open>The values of the exact number type that are not NaN.\<close>

definition numbers :: "xval set" where
  "numbers = {x. x \<noteq> NaN}"

subsection \<open>The bracket update in the words of the specification\<close>

text \<open>
  \<open>x \<le> y\<close> on the number type, and two values that are comparable (for floating point
  numbers: neither is NaN).
\<close>

definition a_le :: "'a arith \<Rightarrow> 'a \<Rightarrow> 'a \<Rightarrow> bool" where
  "a_le A x y \<longleftrightarrow> a_lt A x y \<or> a_eq A x y"

definition comparable :: "'a arith \<Rightarrow> 'a \<Rightarrow> 'a \<Rightarrow> bool" where
  "comparable A x y \<longleftrightarrow> a_lt A x y \<or> a_eq A x y \<or> a_lt A y x"

text \<open>
  The five cases by the position of \<open>n\<close>, each with the condition the specification
  gives it: \<open>n < l\<close>; \<open>l \<le> n < m\<close>; \<open>n == m\<close>; \<open>m < n < u\<close>; \<open>n \<ge> u\<close>. \<open>None\<close> when
  \<open>n\<close> is in none of the five positions.
\<close>

definition spec_update :: "'a arith \<Rightarrow> 'a QuadraticLineSearch \<Rightarrow> 'a bracket \<Rightarrow> 'a \<Rightarrow> 'a
    \<Rightarrow> (('a \<times> 'a QuadraticLineSearch) + 'a bracket) option" where
  "spec_update A self b n fn =
     (if a_lt A n (bl b) then
        Some (if exit_outside_bounds self then Inl (a_nan A, self\<lparr>status := OUTSIDE_BOUNDS\<rparr>)
              else Inr \<lparr>bl = n, bfl = fn, bm = bl b, bfm = bfl b, bu = bm b, bfu = bfm b\<rparr>)
      else if a_le A (bl b) n \<and> a_lt A n (bm b) then
        Some (if a_lt A (bfm b) fn then Inr (b\<lparr>bl := n, bfl := fn\<rparr>)
              else Inr (b\<lparr>bu := bm b, bfu := bfm b, bm := n, bfm := fn\<rparr>))
      else if a_eq A n (bm b) then Some (Inl (n, self))
      else if a_lt A (bm b) n \<and> a_lt A n (bu b) then
        Some (if a_lt A (bfm b) fn then Inr (b\<lparr>bu := n, bfu := fn\<rparr>)
              else Inr (b\<lparr>bl := bm b, bfl := bfm b, bm := n, bfm := fn\<rparr>))
      else if a_le A (bu b) n then
        Some (if exit_outside_bounds self then Inl (a_nan A, self\<lparr>status := OUTSIDE_BOUNDS\<rparr>)
              else Inr \<lparr>bl = bm b, bfl = bfm b, bm = bu b, bfm = bfu b, bu = n, bfu = fn\<rparr>)
      else None)"

section \<open>Properties\<close>

subsection \<open>Unfolding the definitions\<close>

lemmas body_defs = iteration_def verbose_iteration_def above_chord_def narrow_def flat_def
  candidate_def update_def converged_def std_min_def initial_def

lemmas object_defs = new_QuadraticLineSearch_def set_lower_bound_def set_init_estimate_def
  set_upper_bound_def set_value_tolerance_def set_function_tolerance_def
  set_exit_if_outside_bounds_def set_max_iterations_def set_message_def get_status_def
  scenario_def

lemmas exact_defs = Let_def exact_def xsub_def inf_of_def stateless_def logging_def
  parabola_def hill_def level_def

lemma loop_Return:
  "iters < max_iters self \<Longrightarrow> iteration A self functor b s = Return v self' s'
    \<Longrightarrow> loop A self functor iters b s = (v, self', s')"
  by (subst loop.simps) simp

lemma loop_Continue:
  "iters < max_iters self \<Longrightarrow> iteration A self functor b s = Continue b' s'
    \<Longrightarrow> loop A self functor iters b s = loop A self functor (Suc iters) b' s'"
  by (subst loop.simps) simp

lemma loop_exhausted:
  "\<not> iters < max_iters self
    \<Longrightarrow> loop A self functor iters b s = (a_nan A, self\<lparr>status := NONCONVERGING\<rparr>, s)"
  by (subst loop.simps) simp

lemma operator_call_at_iteration:
  assumes "at_iteration A self functor s iters b t"
  shows "operator_call A self functor s
    = loop A (self\<lparr>status := EXECUTING\<rparr>) functor iters b t"
  using assms
proof (induction rule: at_iteration.induct)
  case (entry b t)
  then show ?case by (simp add: operator_call_def)
next
  case (pass iters b t b' t')
  then show ?case by (simp add: loop_Continue)
qed

subsection \<open>The two scenarios\<close>

text \<open>
  C7. The cost function \<open>- (x - 2)\<^sup>2\<close>, lower bound 0, initial estimate 1, upper bound 4,
  default tolerances: the call returns NaN and leaves the status NONCONVEX. The first
  test of the first pass finds the middle cost \<open>-1\<close> above the chord (at \<open>-4\<close>), the
  bracket is not narrow (\<open>min (1, 3) = 1\<close> is not below \<open>0.004\<close>) and the relative
  difference \<open>0\<close> is not below the function tolerance \<open>0\<close>.
\<close>

theorem concave_scenario:
  "operator_call exact scenario (stateless (hill 2)) ()
     = (a_nan exact, scenario\<lparr>status := NONCONVEX\<rparr>, ())
   \<and> a_nan exact = NaN
   \<and> get_status (fst (snd (operator_call exact scenario (stateless (hill 2)) ()))) = NONCONVEX"
  by (simp add: operator_call_def loop.simps body_defs object_defs exact_defs)

text \<open>
  C3. The cost function \<open>(x - 2)\<^sup>2\<close>, lower bound 0, initial estimate 1, upper bound 4,
  default tolerances: the call returns 2, and the status it leaves is EXECUTING, not
  SUCCESS. The first pass interpolates \<open>n = 2\<close> and moves the bracket to \<open>(1, 2, 4)\<close>;
  the second pass interpolates \<open>n = 2\<close> again, which is the middle point, and takes the
  \<^verbatim>\<open>return n\<close> of the branch \<^verbatim>\<open>n == m\<close>, which does not write the status.
\<close>

theorem convex_scenario:
  "operator_call exact scenario (logging (parabola 2)) []
     = (Fin 2, scenario\<lparr>status := EXECUTING\<rparr>, [Fin 0, Fin 1, Fin 4, Fin 2, Fin 2])"
  by (simp add: operator_call_def loop.simps body_defs object_defs exact_defs)

subsection \<open>The status after a call\<close>

text \<open>
  C2. After a call has returned, the status can be EXECUTING: on the bounds 0 and 4 with
  every setting as constructed (initial estimate 2) and the cost function \<open>(x - 1)\<^sup>2\<close>,
  the second pass returns through the branch \<^verbatim>\<open>n == m\<close> and \<^verbatim>\<open>get_status()\<close> reads
  EXECUTING.
\<close>

theorem status_executing_after_call:
  "get_status (fst (snd (operator_call exact (new_QuadraticLineSearch exact (Fin 0) (Fin 4))
      (stateless (parabola 1)) ()))) = EXECUTING"
  by (simp add: operator_call_def loop.simps body_defs object_defs exact_defs)

text \<open>
  C6. When the cost of an interpolated point is not finite, \<^verbatim>\<open>operator()\<close> returns the
  middle point \<open>m\<close> of that pass and leaves the object as it was at entry, with the status
  EXECUTING.
\<close>

theorem nonfinite_cost_returns_mid:
  assumes "at_iteration A self functor s iters b t"
    and "iters < max_iters self"
    and "\<not> above_chord A b"
    and "\<not> a_isfinite A (fst (functor (candidate A b) t))"
  shows "operator_call A self functor s
    = (bm b, self\<lparr>status := EXECUTING\<rparr>, snd (functor (candidate A b) t))"
proof -
  have stop: "iteration A (self\<lparr>status := EXECUTING\<rparr>) functor b t
      = Return (bm b) (self\<lparr>status := EXECUTING\<rparr>) (snd (functor (candidate A b) t))"
    using assms(3,4) by (cases "functor (candidate A b) t") (simp add: iteration_def Let_def)
  have "operator_call A self functor s
      = loop A (self\<lparr>status := EXECUTING\<rparr>) functor iters b t"
    using assms(1) by (rule operator_call_at_iteration)
  also have "\<dots> = (bm b, self\<lparr>status := EXECUTING\<rparr>, snd (functor (candidate A b) t))"
    using assms(2) stop by (simp add: loop_Return)
  finally show ?thesis .
qed

text \<open>
  The cost function \<open>x\<^sup>2\<close> in the scenario's bracket: the first pass interpolates
  \<open>n = 0\<close>, the lower point, and leaves the bracket \<open>(0, 0, 1)\<close>; in the second pass the
  lower slope is \<open>0 / 0\<close>, the new point and its cost are NaN, and the call returns the
  middle point 0.
\<close>

theorem nonfinite_cost_returns_mid_witness:
  "at_iteration exact scenario (stateless (parabola 0)) () (Suc 0)
      \<lparr>bl = Fin 0, bfl = Fin 0, bm = Fin 0, bfm = Fin 0, bu = Fin 1, bfu = Fin 1\<rparr> ()
   \<and> Suc 0 < max_iters scenario
   \<and> \<not> above_chord exact \<lparr>bl = Fin 0, bfl = Fin 0, bm = Fin 0, bfm = Fin 0, bu = Fin 1, bfu = Fin 1\<rparr>
   \<and> \<not> a_isfinite exact (fst (stateless (parabola 0)
        (candidate exact \<lparr>bl = Fin 0, bfl = Fin 0, bm = Fin 0, bfm = Fin 0, bu = Fin 1, bfu = Fin 1\<rparr>) ()))
   \<and> operator_call exact scenario (stateless (parabola 0)) ()
        = (Fin 0, scenario\<lparr>status := EXECUTING\<rparr>, ())"
proof -
  let ?b = "\<lparr>bl = Fin 0, bfl = Fin 0, bm = Fin 0, bfm = Fin 0, bu = Fin 1, bfu = Fin 1\<rparr>"
  have h0: "at_iteration exact scenario (stateless (parabola 0)) () 0
      \<lparr>bl = Fin 0, bfl = Fin 0, bm = Fin 1, bfm = Fin 1, bu = Fin 4, bfu = Fin 16\<rparr> ()"
    by (rule at_iteration.entry) (simp add: initial_def object_defs exact_defs)
  have h1: "at_iteration exact scenario (stateless (parabola 0)) () (Suc 0) ?b ()"
    by (rule at_iteration.pass [OF h0]) (simp_all add: body_defs object_defs exact_defs)
  have h2: "Suc 0 < max_iters scenario"
    by (simp add: object_defs)
  have h3: "\<not> above_chord exact ?b"
    by (simp add: body_defs exact_defs)
  have h4: "\<not> a_isfinite exact (fst (stateless (parabola 0) (candidate exact ?b) ()))"
    by (simp add: body_defs exact_defs)
  have r: "operator_call exact scenario (stateless (parabola 0)) ()
      = (Fin 0, scenario\<lparr>status := EXECUTING\<rparr>, ())"
    using nonfinite_cost_returns_mid [OF h1 h2 h3 h4] by simp
  from h1 h2 h3 h4 r show ?thesis by (intro conjI)
qed

text \<open>
  C10. With the iteration limit set to 0 the loop body is never entered: the functor is
  called three times, on the lower, the middle and the upper point in this order, the
  call returns NaN and the status is NONCONVERGING.
\<close>

theorem no_iterations:
  "operator_call A (set_max_iterations 0 self) functor s
     = (a_nan A, (set_max_iterations 0 self)\<lparr>status := NONCONVERGING\<rparr>,
        snd (functor (init_upper self) (snd (functor (init_mid self)
          (snd (functor (init_lower self) s))))))
   \<and> snd (snd (operator_call A (set_max_iterations 0 self) (logging g) pts))
     = pts @ [init_lower self, init_mid self, init_upper self]"
  by (simp add: operator_call_def initial_def set_max_iterations_def loop_exhausted
      logging_def Let_def split_beta)

subsection \<open>The two entry points\<close>

text \<open>
  C1. \<^verbatim>\<open>verbose\<close> and \<^verbatim>\<open>operator()\<close> do not return the same on every input. On the
  scenario's optimiser with the cost function \<open>x\<^sup>2\<close>, the second pass computes a NaN
  point with a NaN cost: \<^verbatim>\<open>operator()\<close> returns the middle point 0 (status EXECUTING),
  \<^verbatim>\<open>verbose\<close>, which has no test of \<^verbatim>\<open>std::isfinite\<close>, falls to its last branch and
  returns NaN with OUTSIDE\_BOUNDS. With the function tolerance set to 1 and the cost
  function \<open>- (x - 2)\<^sup>2\<close>, \<^verbatim>\<open>operator()\<close> returns 1 with SUCCESS through the second
  disjunct of its first test, which \<^verbatim>\<open>verbose\<close> does not have: it returns NaN with
  NONCONVEX.
\<close>

theorem verbose_differs:
  "operator_call exact scenario (logging (parabola 0)) []
     = (Fin 0, scenario\<lparr>status := EXECUTING\<rparr>, [Fin 0, Fin 1, Fin 4, Fin 0, NaN])
   \<and> verbose exact scenario (logging (parabola 0)) []
     = (NaN, scenario\<lparr>status := OUTSIDE_BOUNDS\<rparr>, [Fin 0, Fin 1, Fin 4, Fin 0, NaN])
   \<and> operator_call exact (set_function_tolerance (Fin 1) scenario) (logging (hill 2)) []
     = (Fin 1, set_function_tolerance (Fin 1) scenario\<lparr>status := SUCCESS\<rparr>, [Fin 0, Fin 1, Fin 4])
   \<and> verbose exact (set_function_tolerance (Fin 1) scenario) (logging (hill 2)) []
     = (NaN, set_function_tolerance (Fin 1) scenario\<lparr>status := NONCONVEX\<rparr>, [Fin 0, Fin 1, Fin 4])"
  by (simp add: operator_call_def verbose_def loop.simps verbose_loop.simps body_defs object_defs exact_defs)

subsection \<open>What a call changes\<close>

lemma update_keeps_settings:
  "update A self b n fn = Inl (v, self') \<Longrightarrow> self' = self\<lparr>status := status self'\<rparr>"
  by (auto simp: update_def split: if_splits)

lemma iteration_keeps_settings:
  assumes "iteration A self functor b s = Return v self' s'"
  shows "self' = self\<lparr>status := status self'\<rparr>"
  using assms
  by (cases "functor (candidate A b) s")
     (auto simp: iteration_def Let_def split: if_splits sum.splits dest: update_keeps_settings)

lemma loop_keeps_settings:
  "loop A self f iters b s = (v, self', s') \<Longrightarrow> self' = self\<lparr>status := status self'\<rparr>"
proof (induction A self f iters b s rule: loop.induct)
  case (1 A self f iters b s)
  show ?case
  proof (cases "iters < max_iters self")
    case False
    with "1.prems" show ?thesis by (auto simp: loop_exhausted)
  next
    case True
    show ?thesis
    proof (cases "iteration A self f b s")
      case (Return w self'' s'')
      with True "1.prems" show ?thesis
        by (auto simp: loop_Return dest: iteration_keeps_settings)
    next
      case (Continue b' s'')
      with True "1.prems" "1.IH" show ?thesis
        by (simp add: loop_Continue)
    qed
  qed
qed

lemma operator_call_keeps_settings:
  assumes "operator_call A self functor s = (v, self', s')"
  shows "self' = self\<lparr>status := status self'\<rparr>"
proof -
  obtain b s3 where i: "initial (self\<lparr>status := EXECUTING\<rparr>) functor s = (b, s3)"
    by (cases "initial (self\<lparr>status := EXECUTING\<rparr>) functor s")
  with assms have "loop A (self\<lparr>status := EXECUTING\<rparr>) functor 0 b s3 = (v, self', s')"
    by (simp add: operator_call_def)
  then have "self' = (self\<lparr>status := EXECUTING\<rparr>)\<lparr>status := status self'\<rparr>"
    by (rule loop_keeps_settings)
  then show ?thesis by simp
qed

lemma outcome_iteration:
  assumes "\<forall>x s. fst (functor x s) = g x"
  shows "outcome (iteration A self functor b s) = outcome (iteration A self (stateless g) b ())"
  using assms
  by (simp add: iteration_def stateless_def Let_def split_beta split: sum.splits)

lemma outcome_Inl:
  "outcome x = Inl (v, self') \<Longrightarrow> \<exists>s'. x = Return v self' s'"
  by (cases x) simp_all

lemma outcome_Inr:
  "outcome x = Inr b' \<Longrightarrow> \<exists>s'. x = Continue b' s'"
  by (cases x) simp_all

lemma loop_stateless:
  assumes "\<forall>x s. fst (f x s) = g x"
  shows "fst (loop A self f iters b s) = fst (loop A self (stateless g) iters b ())
    \<and> fst (snd (loop A self f iters b s)) = fst (snd (loop A self (stateless g) iters b ()))"
  using assms
proof (induction A self f iters b s rule: loop.induct)
  case (1 A self f iters b s)
  have same: "outcome (iteration A self (stateless g) b ()) = outcome (iteration A self f b s)"
    using "1.prems" by (simp add: outcome_iteration [of f g])
  show ?case
  proof (cases "iters < max_iters self")
    case False
    then show ?thesis by (simp add: loop_exhausted)
  next
    case True
    show ?thesis
    proof (cases "iteration A self f b s")
      case (Return v self' s')
      with same obtain u where "iteration A self (stateless g) b () = Return v self' u"
        by (auto dest: outcome_Inl)
      with True Return show ?thesis by (simp add: loop_Return)
    next
      case (Continue b' s')
      with same obtain u where "iteration A self (stateless g) b () = Continue b' u"
        by (auto dest: outcome_Inr)
      with True Continue "1.IH" [OF True Continue "1.prems"] show ?thesis
        by (simp add: loop_Continue)
    qed
  qed
qed

lemma initial_stateless:
  assumes "\<forall>x s. fst (f x s) = g x"
  shows "fst (initial self f s) = fst (initial self (stateless g) ())"
  using assms by (simp add: initial_def stateless_def Let_def split_beta)

lemma operator_call_stateless:
  assumes "\<forall>x s. fst (f x s) = g x"
  shows "fst (operator_call A self f s) = fst (operator_call A self (stateless g) ())
    \<and> fst (snd (operator_call A self f s)) = fst (snd (operator_call A self (stateless g) ()))"
proof -
  obtain b s3 where i: "initial (self\<lparr>status := EXECUTING\<rparr>) f s = (b, s3)"
    by (cases "initial (self\<lparr>status := EXECUTING\<rparr>) f s")
  with initial_stateless [OF assms, of "self\<lparr>status := EXECUTING\<rparr>" s]
  have j: "initial (self\<lparr>status := EXECUTING\<rparr>) (stateless g) () = (b, ())"
    by (cases "initial (self\<lparr>status := EXECUTING\<rparr>) (stateless g) ()") simp
  show ?thesis
    using loop_stateless [OF assms, of A "self\<lparr>status := EXECUTING\<rparr>" 0 b s3]
    by (simp add: operator_call_def i j)
qed

text \<open>
  C9. With a deterministic cost functor, a second call on the same object returns the
  value of the first and leaves the status of the first; a call changes no field of the
  object but the status.
\<close>

theorem repeated_call:
  assumes "deterministic f"
    and "operator_call A self f s = (v1, self1, s1)"
    and "operator_call A self1 f s1 = (v2, self2, s2)"
  shows "v2 = v1 \<and> status self2 = status self1
    \<and> self1 = self\<lparr>status := status self1\<rparr> \<and> self2 = self1"
proof -
  define g where "g = (\<lambda>x. fst (f x s))"
  have g: "\<forall>x t. fst (f x t) = g x"
    using assms(1) by (simp add: deterministic_def g_def)
  have k1: "self1 = self\<lparr>status := status self1\<rparr>"
    using assms(2) by (rule operator_call_keeps_settings)
  have k2: "self2 = self1\<lparr>status := status self2\<rparr>"
    using assms(3) by (rule operator_call_keeps_settings)
  have e: "self1\<lparr>status := EXECUTING\<rparr> = self\<lparr>status := EXECUTING\<rparr>"
    by (subst k1) simp
  have same: "operator_call A self1 (stateless g) () = operator_call A self (stateless g) ()"
    by (simp add: operator_call_def e)
  have "v1 = fst (operator_call A self (stateless g) ())"
    and "self1 = fst (snd (operator_call A self (stateless g) ()))"
    using operator_call_stateless [OF g, of A self s] assms(2) by simp_all
  moreover have "v2 = fst (operator_call A self1 (stateless g) ())"
    and "self2 = fst (snd (operator_call A self1 (stateless g) ()))"
    using operator_call_stateless [OF g, of A self1 s1] assms(3) by simp_all
  ultimately have "v2 = v1" and "self2 = self1"
    using same by simp_all
  with k1 show ?thesis by simp
qed

theorem repeated_call_witness:
  "deterministic (logging (parabola 2))
   \<and> operator_call exact scenario (logging (parabola 2)) []
       = (Fin 2, scenario\<lparr>status := EXECUTING\<rparr>, [Fin 0, Fin 1, Fin 4, Fin 2, Fin 2])
   \<and> operator_call exact (scenario\<lparr>status := EXECUTING\<rparr>) (logging (parabola 2))
         [Fin 0, Fin 1, Fin 4, Fin 2, Fin 2]
       = (Fin 2, scenario\<lparr>status := EXECUTING\<rparr>,
          [Fin 0, Fin 1, Fin 4, Fin 2, Fin 2, Fin 0, Fin 1, Fin 4, Fin 2, Fin 2])
   \<and> status (scenario\<lparr>status := EXECUTING\<rparr>) = EXECUTING
   \<and> max_iters (scenario\<lparr>status := EXECUTING\<rparr>) = max_iters scenario"
proof -
  have d: "deterministic (logging (parabola 2))"
    by (simp add: deterministic_def logging_def)
  have c1: "operator_call exact scenario (logging (parabola 2)) []
      = (Fin 2, scenario\<lparr>status := EXECUTING\<rparr>, [Fin 0, Fin 1, Fin 4, Fin 2, Fin 2])"
    by (simp add: operator_call_def loop.simps body_defs object_defs exact_defs)
  have c2: "operator_call exact (scenario\<lparr>status := EXECUTING\<rparr>) (logging (parabola 2))
        [Fin 0, Fin 1, Fin 4, Fin 2, Fin 2]
      = (Fin 2, scenario\<lparr>status := EXECUTING\<rparr>,
         [Fin 0, Fin 1, Fin 4, Fin 2, Fin 2, Fin 0, Fin 1, Fin 4, Fin 2, Fin 2])"
    by (simp add: operator_call_def loop.simps body_defs object_defs exact_defs)
  from d c1 c2 repeated_call [OF d c1 c2] show ?thesis by simp
qed

subsection \<open>The iteration limit\<close>

lemma counted_initial:
  "snd (snd (initial self (counted f) (s, k))) = k + 3"
  by (simp add: initial_def counted_def Let_def split_beta)

lemma counted_Return:
  "iteration A self (counted f) b (s, k) = Return v self' (s', k') \<Longrightarrow> k' \<le> Suc k"
  by (auto simp: iteration_def counted_def Let_def split_beta split: if_splits sum.splits)

lemma counted_Continue:
  "iteration A self (counted f) b (s, k) = Continue b' (s', k') \<Longrightarrow> k' = Suc k"
  by (auto simp: iteration_def counted_def Let_def split_beta split: if_splits sum.splits)

lemma counted_loop:
  "snd (snd (snd (loop A self (counted f) iters b (s, k)))) \<le> k + (max_iters self - iters)"
proof (induction "max_iters self - iters" arbitrary: iters b s k)
  case 0
  then show ?case by (simp add: loop_exhausted)
next
  case (Suc d)
  then have less: "iters < max_iters self" by simp
  show ?case
  proof (cases "iteration A self (counted f) b (s, k)")
    case (Return v self' t)
    obtain s' k' where t: "t = (s', k')" by (cases t)
    with Return have "k' \<le> Suc k" by (auto dest: counted_Return)
    with less Return t show ?thesis by (simp add: loop_Return)
  next
    case (Continue b' t)
    obtain s' k' where t: "t = (s', k')" by (cases t)
    with Continue have k: "k' = Suc k" by (auto dest: counted_Continue)
    from Suc.hyps(2) have "d = max_iters self - Suc iters" by simp
    from Suc.hyps(1) [OF this, of b' s' k'] less Continue t k show ?thesis
      by (simp add: loop_Continue)
  qed
qed

lemma at_iteration_bound:
  "at_iteration A self f s iters b t \<Longrightarrow> iters \<le> max_iters self"
  by (induction rule: at_iteration.induct) simp_all

text \<open>
  C8, as the code has it. The test of the \<^verbatim>\<open>while\<close> is reached with a counter of at most
  \<^verbatim>\<open>max_iters\<close>, so the body runs at most \<^verbatim>\<open>max_iters\<close> times; when the test is reached
  with the counter at \<^verbatim>\<open>max_iters\<close> the call returns NaN with the status
  NONCONVERGING; the functor is called at most \<open>3 + max_iters\<close> times. With
  \<^verbatim>\<open>max_iters = 1\<close> the call returns what the single pass returns, whichever of its
  \<^verbatim>\<open>return\<close> statements that is, and otherwise NaN with NONCONVERGING: there is at most
  one interpolation.
\<close>

theorem iteration_budget:
  "(at_iteration A self f s iters b t \<longrightarrow> iters \<le> max_iters self)
   \<and> (at_iteration A self f s (max_iters self) b t \<longrightarrow>
        operator_call A self f s = (a_nan A, self\<lparr>status := NONCONVERGING\<rparr>, t))
   \<and> snd (snd (snd (operator_call A self (counted f) (s, k)))) \<le> k + 3 + max_iters self
   \<and> (max_iters self = 1 \<longrightarrow>
        operator_call A self f s =
          (case iteration A (self\<lparr>status := EXECUTING\<rparr>) f
                  (fst (initial self f s)) (snd (initial self f s)) of
             Return v self' t' \<Rightarrow> (v, self', t')
           | Continue b' t' \<Rightarrow> (a_nan A, self\<lparr>status := NONCONVERGING\<rparr>, t')))"
proof (intro conjI impI)
  assume "at_iteration A self f s iters b t"
  then show "iters \<le> max_iters self" by (rule at_iteration_bound)
next
  assume "at_iteration A self f s (max_iters self) b t"
  then have "operator_call A self f s
      = loop A (self\<lparr>status := EXECUTING\<rparr>) f (max_iters self) b t"
    by (rule operator_call_at_iteration)
  then show "operator_call A self f s = (a_nan A, self\<lparr>status := NONCONVERGING\<rparr>, t)"
    by (simp add: loop_exhausted)
next
  obtain b0 s3 k3 where i: "initial (self\<lparr>status := EXECUTING\<rparr>) (counted f) (s, k) = (b0, (s3, k3))"
    by (metis surj_pair)
  with counted_initial [of "self\<lparr>status := EXECUTING\<rparr>" f s k] have "k3 = k + 3" by simp
  with i counted_loop [of A "self\<lparr>status := EXECUTING\<rparr>" f 0 b0 s3 k3]
  show "snd (snd (snd (operator_call A self (counted f) (s, k)))) \<le> k + 3 + max_iters self"
    by (simp add: operator_call_def)
next
  assume one: "max_iters self = 1"
  have i: "initial (self\<lparr>status := EXECUTING\<rparr>) f s = initial self f s"
    by (simp add: initial_def)
  show "operator_call A self f s =
          (case iteration A (self\<lparr>status := EXECUTING\<rparr>) f
                  (fst (initial self f s)) (snd (initial self f s)) of
             Return v self' t' \<Rightarrow> (v, self', t')
           | Continue b' t' \<Rightarrow> (a_nan A, self\<lparr>status := NONCONVERGING\<rparr>, t'))"
    using one
    by (simp add: operator_call_def i split_beta loop.simps [of _ _ _ 0]
        loop_exhausted split: flow.splits)
qed

text \<open>
  With \<^verbatim>\<open>max_iters = 1\<close> and the cost function \<open>(x - 2)\<^sup>2\<close> the single pass interpolates
  the point 2, keeps the bracket \<open>(1, 2, 4)\<close> and the call ends NONCONVERGING after four
  calls of the functor.
\<close>

theorem iteration_budget_witness:
  "at_iteration exact (set_max_iterations 1 scenario) (logging (parabola 2)) [] (Suc 0)
      \<lparr>bl = Fin 1, bfl = Fin 1, bm = Fin 2, bfm = Fin 0, bu = Fin 4, bfu = Fin 4\<rparr>
      [Fin 0, Fin 1, Fin 4, Fin 2]
   \<and> max_iters (set_max_iterations 1 scenario) = 1
   \<and> operator_call exact (set_max_iterations 1 scenario) (logging (parabola 2)) []
      = (NaN, set_max_iterations 1 scenario\<lparr>status := NONCONVERGING\<rparr>, [Fin 0, Fin 1, Fin 4, Fin 2])
   \<and> snd (snd (snd (operator_call exact (set_max_iterations 1 scenario)
        (counted (logging (parabola 2))) ([], 0)))) \<le> 4"
proof -
  let ?self = "set_max_iterations 1 scenario"
  let ?f = "logging (parabola 2)"
  let ?b = "\<lparr>bl = Fin 1, bfl = Fin 1, bm = Fin 2, bfm = Fin 0, bu = Fin 4, bfu = Fin 4\<rparr>"
  have h0: "at_iteration exact ?self ?f [] 0
      \<lparr>bl = Fin 0, bfl = Fin 4, bm = Fin 1, bfm = Fin 1, bu = Fin 4, bfu = Fin 4\<rparr>
      [Fin 0, Fin 1, Fin 4]"
    by (rule at_iteration.entry) (simp add: initial_def object_defs exact_defs)
  have h1: "at_iteration exact ?self ?f [] (Suc 0) ?b [Fin 0, Fin 1, Fin 4, Fin 2]"
    by (rule at_iteration.pass [OF h0]) (simp_all add: body_defs object_defs exact_defs)
  have m: "max_iters ?self = 1"
    by (simp add: object_defs)
  have n: "a_nan exact = NaN"
    by (simp add: exact_def)
  from h1 m n iteration_budget [of exact ?self ?f "[]" "Suc 0" ?b "[Fin 0, Fin 1, Fin 4, Fin 2]" 0]
  show ?thesis by simp
qed

text \<open>
  C8 as stated fails for \<^verbatim>\<open>max_iters = 1\<close> and the cost function \<open>- (x - 2)\<^sup>2\<close>: the
  functor is called on the three initial points only, so no interpolation is performed,
  and the call neither converges nor ends NONCONVERGING: the status is NONCONVEX.
\<close>

theorem one_pass_without_interpolation:
  "operator_call exact (set_max_iterations 1 scenario) (logging (hill 2)) []
     = (NaN, set_max_iterations 1 scenario\<lparr>status := NONCONVEX\<rparr>, [Fin 0, Fin 1, Fin 4])"
  by (simp add: operator_call_def loop.simps body_defs object_defs exact_defs)

subsection \<open>The order of the bracket\<close>

lemma linear_onD:
  assumes "linear_on A S"
  shows "\<And>x. x \<in> S \<Longrightarrow> \<not> a_lt A x x"
    and "\<And>x y z. x \<in> S \<Longrightarrow> y \<in> S \<Longrightarrow> z \<in> S \<Longrightarrow> a_lt A x y \<Longrightarrow> a_lt A y z \<Longrightarrow> a_lt A x z"
    and "\<And>x y z. x \<in> S \<Longrightarrow> y \<in> S \<Longrightarrow> z \<in> S \<Longrightarrow> a_lt A x z \<Longrightarrow> a_lt A x y \<or> a_lt A y z"
    and "\<And>x y. x \<in> S \<Longrightarrow> y \<in> S \<Longrightarrow> a_lt A x y \<or> a_eq A x y \<or> a_lt A y x"
  using assms unfolding linear_on_def by blast+

lemma update_weakly_ordered:
  assumes lin: "linear_on A S"
    and mem: "bl b \<in> S" "bm b \<in> S" "bu b \<in> S" "n \<in> S"
    and ord: "weakly_ordered A b"
    and upd: "update A self b n fn = Inr b'"
  shows "weakly_ordered A b' \<and> bl b' \<in> S \<and> bm b' \<in> S \<and> bu b' \<in> S"
proof -
  note irrefl = linear_onD(1) [OF lin] and trans = linear_onD(2) [OF lin]
    and between = linear_onD(3) [OF lin] and total = linear_onD(4) [OF lin]
  have asym: "\<And>x y. x \<in> S \<Longrightarrow> y \<in> S \<Longrightarrow> a_lt A x y \<Longrightarrow> \<not> a_lt A y x"
    using irrefl trans by blast
  from ord have lm: "\<not> a_lt A (bm b) (bl b)" and mu: "\<not> a_lt A (bu b) (bm b)"
    and lu: "a_lt A (bl b) (bu b)"
    by (simp_all add: weakly_ordered_def)
  consider (below) "a_lt A n (bl b)"
    | (lower) "\<not> a_lt A n (bl b)" "a_lt A n (bm b)"
    | (mid) "\<not> a_lt A n (bl b)" "\<not> a_lt A n (bm b)" "a_eq A n (bm b)"
    | (upper) "\<not> a_lt A n (bl b)" "\<not> a_lt A n (bm b)" "\<not> a_eq A n (bm b)" "a_lt A n (bu b)"
    | (above) "\<not> a_lt A n (bl b)" "\<not> a_lt A n (bm b)" "\<not> a_eq A n (bm b)" "\<not> a_lt A n (bu b)"
    by blast
  then show ?thesis
  proof cases
    case below
    with upd have b': "b' = \<lparr>bl = n, bfl = fn, bm = bl b, bfm = bfl b, bu = bm b, bfu = bfm b\<rparr>"
      by (auto simp: update_def split: if_splits)
    have "a_lt A n (bm b)"
      using between [OF mem(4) mem(2) mem(1)] below lm by blast
    with below lm asym [OF mem(4) mem(1)] mem show ?thesis
      by (simp add: b' weakly_ordered_def)
  next
    case lower
    have nu: "a_lt A n (bu b)"
      using between [OF mem(4) mem(3) mem(2)] lower(2) mu by blast
    have ln: "a_lt A (bl b) (bm b)"
      using between [OF mem(4) mem(1) mem(2)] lower by blast
    from upd lower consider
      "b' = b\<lparr>bl := n, bfl := fn\<rparr>"
      | "b' = \<lparr>bl = bl b, bfl = bfl b, bm = n, bfm = fn, bu = bm b, bfu = bfm b\<rparr>"
      by (auto simp: update_def split: if_splits)
    then show ?thesis
      using lower nu ln mu asym [OF mem(4) mem(2)] mem
      by cases (simp_all add: weakly_ordered_def)
  next
    case mid
    with upd show ?thesis by (simp add: update_def)
  next
    case upper
    have mn: "a_lt A (bm b) n"
      using total [OF mem(4) mem(2)] upper by blast
    have ln: "a_lt A (bl b) n"
      using between [OF mem(2) mem(1) mem(4)] mn lm by blast
    have mu': "a_lt A (bm b) (bu b)"
      using trans [OF mem(2) mem(4) mem(3)] mn upper(4) by blast
    from upd upper consider
      "b' = b\<lparr>bu := n, bfu := fn\<rparr>"
      | "b' = \<lparr>bl = bm b, bfl = bfm b, bm = n, bfm = fn, bu = bu b, bfu = bfu b\<rparr>"
      by (auto simp: update_def split: if_splits)
    then show ?thesis
      using upper mn ln mu' lm asym [OF mem(4) mem(3)] mem
      by cases (simp_all add: weakly_ordered_def)
  next
    case above
    with upd have b': "b' = \<lparr>bl = bm b, bfl = bfm b, bm = bu b, bfm = bfu b, bu = n, bfu = fn\<rparr>"
      by (auto simp: update_def split: if_splits)
    have "a_lt A (bm b) n"
      using total [OF mem(4) mem(2)] above by blast
    with above mu mem show ?thesis
      by (simp add: b' weakly_ordered_def)
  qed
qed

lemma iteration_Continue_update:
  assumes "iteration A self f b s = Continue b' s'"
  shows "update A self b (candidate A b) (fst (f (candidate A b) s)) = Inr b'"
  using assms
  by (auto simp: iteration_def Let_def split_beta split: if_splits sum.splits)

lemma initial_bracket:
  "bl (fst (initial self f s)) = init_lower self"
  "bm (fst (initial self f s)) = init_mid self"
  "bu (fst (initial self f s)) = init_upper self"
  by (simp_all add: initial_def Let_def split_beta)

lemma linear_on_numbers: "linear_on exact numbers"
  unfolding linear_on_def numbers_def
proof (intro ballI)
  fix x y z :: xval
  assume "x \<in> {x. x \<noteq> NaN}" "y \<in> {x. x \<noteq> NaN}" "z \<in> {x. x \<noteq> NaN}"
  then show "\<not> a_lt exact x x
        \<and> (a_lt exact x y \<and> a_lt exact y z \<longrightarrow> a_lt exact x z)
        \<and> (a_lt exact x z \<longrightarrow> a_lt exact x y \<or> a_lt exact y z)
        \<and> (a_lt exact x y \<or> a_eq exact x y \<or> a_lt exact y x)"
    by (cases x; cases y; cases z) (auto simp: exact_def)
qed

text \<open>
  C4, as the code has it. When the initial points are numbers with \<open>l < m < u\<close> and every
  point interpolated so far is a number, the bracket at the test of the \<^verbatim>\<open>while\<close>
  consists of numbers with \<open>l \<le> m \<le> u\<close> and \<open>l < u\<close>: each of the five branches of the
  update keeps this order, whatever the cost of the new point.
\<close>

theorem bracket_stays_weakly_ordered:
  assumes "linear_on A S"
    and "at_iteration A self f s iters b t"
    and "init_lower self \<in> S" and "init_mid self \<in> S" and "init_upper self \<in> S"
    and "a_lt A (init_lower self) (init_mid self)"
    and "a_lt A (init_mid self) (init_upper self)"
    and "\<forall>j c r. at_iteration A self f s j c r \<and> j < iters \<longrightarrow> candidate A c \<in> S"
  shows "weakly_ordered A b \<and> bl b \<in> S \<and> bm b \<in> S \<and> bu b \<in> S"
  using assms(2,8)
proof (induction rule: at_iteration.induct)
  case (entry b t)
  note irrefl = linear_onD(1) [OF assms(1)] and trans = linear_onD(2) [OF assms(1)]
  from entry have b: "bl b = init_lower self" "bm b = init_mid self" "bu b = init_upper self"
    using initial_bracket [of "self\<lparr>status := EXECUTING\<rparr>" f s] by simp_all
  have "\<not> a_lt A (init_mid self) (init_lower self)"
    using irrefl trans assms(3,4,6) by blast
  moreover have "\<not> a_lt A (init_upper self) (init_mid self)"
    using irrefl trans assms(4,5,7) by blast
  moreover have "a_lt A (init_lower self) (init_upper self)"
    using trans assms(3-7) by blast
  ultimately show ?case
    using assms(3-5) by (simp add: weakly_ordered_def b)
next
  case (pass iters b t b' t')
  from pass.prems have "\<forall>j c r. at_iteration A self f s j c r \<and> j < iters \<longrightarrow> candidate A c \<in> S"
    using less_SucI by blast
  then have before: "weakly_ordered A b \<and> bl b \<in> S \<and> bm b \<in> S \<and> bu b \<in> S"
    by (rule pass.IH)
  from pass.prems pass.hyps(1) have n: "candidate A b \<in> S"
    by auto
  from pass.hyps(3) have "update A (self\<lparr>status := EXECUTING\<rparr>) b (candidate A b)
      (fst (f (candidate A b) t)) = Inr b'"
    by (rule iteration_Continue_update)
  with assms(1) before n show ?case
    by (intro update_weakly_ordered) simp_all
qed

text \<open>The scenario's bracket after the first pass on \<open>(x - 2)\<^sup>2\<close>: \<open>(1, 2, 4)\<close>.\<close>

theorem bracket_stays_weakly_ordered_witness:
  "linear_on exact numbers
   \<and> at_iteration exact scenario (stateless (parabola 2)) () (Suc 0)
       \<lparr>bl = Fin 1, bfl = Fin 1, bm = Fin 2, bfm = Fin 0, bu = Fin 4, bfu = Fin 4\<rparr> ()
   \<and> init_lower scenario \<in> numbers \<and> init_mid scenario \<in> numbers
   \<and> init_upper scenario \<in> numbers
   \<and> a_lt exact (init_lower scenario) (init_mid scenario)
   \<and> a_lt exact (init_mid scenario) (init_upper scenario)
   \<and> weakly_ordered exact
       \<lparr>bl = Fin 1, bfl = Fin 1, bm = Fin 2, bfm = Fin 0, bu = Fin 4, bfu = Fin 4\<rparr>"
proof -
  let ?f = "stateless (parabola 2)"
  let ?b0 = "\<lparr>bl = Fin 0, bfl = Fin 4, bm = Fin 1, bfm = Fin 1, bu = Fin 4, bfu = Fin 4\<rparr>"
  let ?b1 = "\<lparr>bl = Fin 1, bfl = Fin 1, bm = Fin 2, bfm = Fin 0, bu = Fin 4, bfu = Fin 4\<rparr>"
  have i: "initial (scenario\<lparr>status := EXECUTING\<rparr>) ?f () = (?b0, ())"
    by (simp add: initial_def object_defs exact_defs)
  have h0: "at_iteration exact scenario ?f () 0 ?b0 ()"
    using i by (rule at_iteration.entry)
  have h1: "at_iteration exact scenario ?f () (Suc 0) ?b1 ()"
    by (rule at_iteration.pass [OF h0]) (simp_all add: body_defs object_defs exact_defs)
  have m: "init_lower scenario \<in> numbers" "init_mid scenario \<in> numbers"
    "init_upper scenario \<in> numbers"
    by (simp_all add: numbers_def object_defs exact_defs)
  have o: "a_lt exact (init_lower scenario) (init_mid scenario)"
    "a_lt exact (init_mid scenario) (init_upper scenario)"
    by (simp_all add: object_defs exact_defs)
  have c: "\<forall>j c r. at_iteration exact scenario ?f () j c r \<and> j < Suc 0
      \<longrightarrow> candidate exact c \<in> numbers"
  proof (intro allI impI)
    fix j c r
    assume "at_iteration exact scenario ?f () j c r \<and> j < Suc 0"
    then have "at_iteration exact scenario ?f () 0 c r" by auto
    then have "c = ?b0"
      using i by (cases rule: at_iteration.cases) simp
    then show "candidate exact c \<in> numbers"
      by (simp add: numbers_def candidate_def exact_defs)
  qed
  from bracket_stays_weakly_ordered [OF linear_on_numbers h1 m o c] linear_on_numbers h1 m o
  show ?thesis by simp
qed

text \<open>
  C4 as stated fails on the cost function \<open>x\<^sup>2\<close> in the scenario's bracket
  \<open>(0, 1, 4)\<close>: the first pass interpolates \<open>n = 0\<close>, which is the lower point, the
  branch \<^verbatim>\<open>n < m\<close> takes it as the new middle point since its cost is not above
  \<open>fm\<close>, and the second pass starts with \<open>l = m = 0\<close>.
\<close>

theorem order_lost:
  "ordered_bracket exact (fst (initial scenario (stateless (parabola 0)) ()))
   \<and> 0 < max_iters scenario
   \<and> iteration exact (scenario\<lparr>status := EXECUTING\<rparr>) (stateless (parabola 0))
       (fst (initial scenario (stateless (parabola 0)) ())) ()
     = Continue \<lparr>bl = Fin 0, bfl = Fin 0, bm = Fin 0, bfm = Fin 0, bu = Fin 1, bfu = Fin 1\<rparr> ()
   \<and> \<not> ordered_bracket exact
       \<lparr>bl = Fin 0, bfl = Fin 0, bm = Fin 0, bfm = Fin 0, bu = Fin 1, bfu = Fin 1\<rparr>"
  by (simp add: ordered_bracket_def body_defs object_defs exact_defs)

subsection \<open>The five cases of the update\<close>

lemma spec_update_comparable:
  assumes "comparable A (bl b) n" and "comparable A n (bm b)" and "comparable A (bu b) n"
  shows "spec_update A self b n fn = Some (update A self b n fn)"
  using assms by (auto simp: spec_update_def update_def comparable_def a_le_def)

lemma spec_update_incomparable:
  assumes "\<not> comparable A (bl b) n" and "\<not> comparable A n (bm b)" and "\<not> comparable A (bu b) n"
  shows "spec_update A self b n fn = None"
    and "update A self b n fn =
      (if exit_outside_bounds self then Inl (a_nan A, self\<lparr>status := OUTSIDE_BOUNDS\<rparr>)
       else Inr \<lparr>bl = bm b, bfl = bfm b, bm = bu b, bfm = bfu b, bu = n, bfu = fn\<rparr>)"
  using assms by (auto simp: spec_update_def update_def comparable_def a_le_def)

text \<open>
  C5, as the code has it. The new point is
  \<open>n = 0.5 * (l + m) - (sl * (u - l)) / (2 * (su - sl))\<close> with the slopes
  \<open>sl = (fm - fl) / (m - l)\<close> and \<open>su = (fu - fm) / (u - m)\<close>. When \<open>n\<close> is comparable
  with \<open>l\<close>, \<open>m\<close> and \<open>u\<close>, the update is the one of the five cases of the
  specification; when it is comparable with none of them (a NaN), it is in none of the
  five positions and the code takes its last branch, the one the specification gives to
  \<open>n \<ge> u\<close>. A pass that gets beyond its first test with a finite cost for \<open>n\<close> does this
  update and then tests the width of the bracket.
\<close>

theorem five_cases:
  "candidate A b =
     a_sub A (a_mul A (lit_half A) (a_add A (bl b) (bm b)))
       (a_div A
          (a_mul A (a_div A (a_sub A (bfm b) (bfl b)) (a_sub A (bm b) (bl b)))
                   (a_sub A (bu b) (bl b)))
          (a_mul A (lit_2 A)
             (a_sub A (a_div A (a_sub A (bfu b) (bfm b)) (a_sub A (bu b) (bm b)))
                      (a_div A (a_sub A (bfm b) (bfl b)) (a_sub A (bm b) (bl b))))))
   \<and> (comparable A (bl b) n \<and> comparable A n (bm b) \<and> comparable A (bu b) n \<longrightarrow>
        spec_update A self b n fn = Some (update A self b n fn))
   \<and> (\<not> comparable A (bl b) n \<and> \<not> comparable A n (bm b) \<and> \<not> comparable A (bu b) n \<longrightarrow>
        spec_update A self b n fn = None
        \<and> update A self b n fn =
            (if exit_outside_bounds self
             then Inl (a_nan A, self\<lparr>status := OUTSIDE_BOUNDS\<rparr>)
             else Inr \<lparr>bl = bm b, bfl = bfm b, bm = bu b, bfm = bfu b, bu = n, bfu = fn\<rparr>))
   \<and> (\<not> above_chord A b \<and> f (candidate A b) s = (fn, s') \<and> a_isfinite A fn \<longrightarrow>
        iteration A self f b s =
          (case update A self b (candidate A b) fn of
             Inl (v, self') \<Rightarrow> Return v self' s'
           | Inr b' \<Rightarrow>
               if converged A self b' then Return (bm b') (self\<lparr>status := SUCCESS\<rparr>) s'
               else Continue b' s'))"
proof (intro conjI impI)
  show "candidate A b =
     a_sub A (a_mul A (lit_half A) (a_add A (bl b) (bm b)))
       (a_div A
          (a_mul A (a_div A (a_sub A (bfm b) (bfl b)) (a_sub A (bm b) (bl b)))
                   (a_sub A (bu b) (bl b)))
          (a_mul A (lit_2 A)
             (a_sub A (a_div A (a_sub A (bfu b) (bfm b)) (a_sub A (bu b) (bm b)))
                      (a_div A (a_sub A (bfm b) (bfl b)) (a_sub A (bm b) (bl b))))))"
    by (simp add: candidate_def Let_def)
next
  assume "comparable A (bl b) n \<and> comparable A n (bm b) \<and> comparable A (bu b) n"
  then show "spec_update A self b n fn = Some (update A self b n fn)"
    by (simp add: spec_update_comparable)
next
  assume h: "\<not> comparable A (bl b) n \<and> \<not> comparable A n (bm b) \<and> \<not> comparable A (bu b) n"
  then show "spec_update A self b n fn = None"
    by (simp add: spec_update_incomparable)
  from h show "update A self b n fn =
      (if exit_outside_bounds self then Inl (a_nan A, self\<lparr>status := OUTSIDE_BOUNDS\<rparr>)
       else Inr \<lparr>bl = bm b, bfl = bfm b, bm = bu b, bfm = bfu b, bu = n, bfu = fn\<rparr>)"
    by (simp add: spec_update_incomparable)
next
  assume "\<not> above_chord A b \<and> f (candidate A b) s = (fn, s') \<and> a_isfinite A fn"
  then show "iteration A self f b s =
          (case update A self b (candidate A b) fn of
             Inl (v, self') \<Rightarrow> Return v self' s'
           | Inr b' \<Rightarrow>
               if converged A self b' then Return (bm b') (self\<lparr>status := SUCCESS\<rparr>) s'
               else Continue b' s')"
    by (simp add: iteration_def Let_def)
qed

text \<open>
  The first pass of the scenario on \<open>(x - 2)\<^sup>2\<close>, where \<open>n = 2\<close> lies between \<open>m\<close> and
  \<open>u\<close>, and the NaN point of the constant cost function.
\<close>

theorem five_cases_witness:
  "comparable exact (Fin 0) (Fin 2) \<and> comparable exact (Fin 2) (Fin 1)
   \<and> comparable exact (Fin 4) (Fin 2)
   \<and> candidate exact \<lparr>bl = Fin 0, bfl = Fin 4, bm = Fin 1, bfm = Fin 1, bu = Fin 4, bfu = Fin 4\<rparr>
     = Fin 2
   \<and> spec_update exact scenario
       \<lparr>bl = Fin 0, bfl = Fin 4, bm = Fin 1, bfm = Fin 1, bu = Fin 4, bfu = Fin 4\<rparr> (Fin 2) (Fin 0)
     = Some (Inr \<lparr>bl = Fin 1, bfl = Fin 1, bm = Fin 2, bfm = Fin 0, bu = Fin 4, bfu = Fin 4\<rparr>)
   \<and> iteration exact scenario (stateless (parabola 2))
       \<lparr>bl = Fin 0, bfl = Fin 4, bm = Fin 1, bfm = Fin 1, bu = Fin 4, bfu = Fin 4\<rparr> ()
     = Continue \<lparr>bl = Fin 1, bfl = Fin 1, bm = Fin 2, bfm = Fin 0, bu = Fin 4, bfu = Fin 4\<rparr> ()
   \<and> \<not> comparable exact (Fin 0) NaN \<and> \<not> comparable exact NaN (Fin 1)
   \<and> \<not> comparable exact (Fin 4) NaN
   \<and> update exact scenario
       \<lparr>bl = Fin 0, bfl = Fin 1, bm = Fin 1, bfm = Fin 1, bu = Fin 4, bfu = Fin 1\<rparr> NaN (Fin 1)
     = Inl (NaN, scenario\<lparr>status := OUTSIDE_BOUNDS\<rparr>)"
proof -
  let ?b = "\<lparr>bl = Fin 0, bfl = Fin 4, bm = Fin 1, bfm = Fin 1, bu = Fin 4, bfu = Fin 4\<rparr>"
  let ?c = "\<lparr>bl = Fin 0, bfl = Fin 1, bm = Fin 1, bfm = Fin 1, bu = Fin 4, bfu = Fin 1\<rparr>"
  have c: "comparable exact (Fin 0) (Fin 2)" "comparable exact (Fin 2) (Fin 1)"
    "comparable exact (Fin 4) (Fin 2)"
    by (simp_all add: comparable_def exact_def)
  have n: "\<not> comparable exact (Fin 0) NaN" "\<not> comparable exact NaN (Fin 1)"
    "\<not> comparable exact (Fin 4) NaN"
    by (simp_all add: comparable_def exact_def)
  have cand: "candidate exact ?b = Fin 2"
    by (simp add: candidate_def exact_defs)
  have u: "update exact scenario ?b (Fin 2) (Fin 0)
      = Inr \<lparr>bl = Fin 1, bfl = Fin 1, bm = Fin 2, bfm = Fin 0, bu = Fin 4, bfu = Fin 4\<rparr>"
    by (simp add: update_def exact_defs)
  have pre: "\<not> above_chord exact ?b"
    "stateless (parabola 2) (candidate exact ?b) () = (Fin 0, ())"
    "a_isfinite exact (Fin 0)"
    by (simp_all add: cand) (simp_all add: above_chord_def exact_defs)
  have conv: "\<not> converged exact scenario
      \<lparr>bl = Fin 1, bfl = Fin 1, bm = Fin 2, bfm = Fin 0, bu = Fin 4, bfu = Fin 4\<rparr>"
    by (simp add: converged_def object_defs exact_defs)
  have e: "exit_outside_bounds scenario" "a_nan exact = NaN"
    by (simp_all add: object_defs exact_defs)
  note t1 = five_cases [of exact ?b "Fin 2" scenario "Fin 0" "stateless (parabola 2)" "()" "()"]
  note t2 = five_cases [of exact ?c NaN scenario "Fin 1" "stateless (level 1)" "()" "()"]
  from t1 c u have s: "spec_update exact scenario ?b (Fin 2) (Fin 0)
      = Some (Inr \<lparr>bl = Fin 1, bfl = Fin 1, bm = Fin 2, bfm = Fin 0, bu = Fin 4, bfu = Fin 4\<rparr>)"
    by simp
  from t1 pre have "iteration exact scenario (stateless (parabola 2)) ?b () =
      (case update exact scenario ?b (candidate exact ?b) (Fin 0) of
         Inl (v, self') \<Rightarrow> Return v self' ()
       | Inr b' \<Rightarrow>
           if converged exact scenario b' then Return (bm b') (scenario\<lparr>status := SUCCESS\<rparr>) ()
           else Continue b' ())"
    by blast
  with cand u conv have i: "iteration exact scenario (stateless (parabola 2)) ?b ()
      = Continue \<lparr>bl = Fin 1, bfl = Fin 1, bm = Fin 2, bfm = Fin 0, bu = Fin 4, bfu = Fin 4\<rparr> ()"
    by simp
  from t2 n e have w: "update exact scenario ?c NaN (Fin 1)
      = Inl (NaN, scenario\<lparr>status := OUTSIDE_BOUNDS\<rparr>)"
    by simp
  from c cand s i n w show ?thesis by (intro conjI)
qed

text \<open>
  C5 as stated fails on a constant cost function in the scenario's bracket: both
  slopes are 0, the new point is \<open>0.5 - 0 / 0\<close>, a NaN, which is neither below \<open>l\<close>, nor
  in one of the two inner intervals, nor equal to \<open>m\<close>, nor at or above \<open>u\<close>; the code
  takes its last branch and the call fails with OUTSIDE\_BOUNDS.
\<close>

theorem nan_candidate_in_no_case:
  "initial (scenario\<lparr>status := EXECUTING\<rparr>) (stateless (level 1)) ()
     = (\<lparr>bl = Fin 0, bfl = Fin 1, bm = Fin 1, bfm = Fin 1, bu = Fin 4, bfu = Fin 1\<rparr>, ())
   \<and> candidate exact \<lparr>bl = Fin 0, bfl = Fin 1, bm = Fin 1, bfm = Fin 1, bu = Fin 4, bfu = Fin 1\<rparr>
     = NaN
   \<and> a_le exact (Fin 4) NaN = False
   \<and> spec_update exact (scenario\<lparr>status := EXECUTING\<rparr>)
       \<lparr>bl = Fin 0, bfl = Fin 1, bm = Fin 1, bfm = Fin 1, bu = Fin 4, bfu = Fin 1\<rparr> NaN (Fin 1)
     = None
   \<and> update exact (scenario\<lparr>status := EXECUTING\<rparr>)
       \<lparr>bl = Fin 0, bfl = Fin 1, bm = Fin 1, bfm = Fin 1, bu = Fin 4, bfu = Fin 1\<rparr> NaN (Fin 1)
     = Inl (NaN, scenario\<lparr>status := OUTSIDE_BOUNDS\<rparr>)
   \<and> operator_call exact scenario (stateless (level 1)) ()
     = (NaN, scenario\<lparr>status := OUTSIDE_BOUNDS\<rparr>, ())"
  by (simp add: operator_call_def loop.simps spec_update_def a_le_def body_defs object_defs exact_defs)

end
